theory Spec2Isabelle
  imports Complex_Main
begin

section \<open>Swatch.py: constants and the channel table\<close>

text \<open>
  Python's \<open>int\<close> is \<open>int\<close>. Python's \<open>float\<close> is read in two ways, both written out
  below: as a real number (exact arithmetic, the reading of the geometry and of every
  statement made "in exact arithmetic"), and as an IEEE 754 binary64 number, where every
  operation rounds its exact result to the nearest representable value.
\<close>

definition MM_TO_POINTS :: real where
  "MM_TO_POINTS = 2.83464567"

definition BOX_AREA_HORIZ_MARGIN_TOTAL :: real where
  "BOX_AREA_HORIZ_MARGIN_TOTAL = 198.425197"

definition BOX_AREA_VERT_MARGIN_TOTAL :: real where
  "BOX_AREA_VERT_MARGIN_TOTAL = 198.425197"

definition X_REF_START_OFFSET :: real where
  "X_REF_START_OFFSET = 42.519685"

definition Y_REF_START_OFFSET :: real where
  "Y_REF_START_OFFSET = 42.519685"

definition BOX_SPACING :: real where
  "BOX_SPACING = 11.3385827"

text \<open>The seven channel names, the keys of \<open>CMYK_DEFINITIONS\<close> and the members of
  \<open>colour_order\<close>; no other name is ever looked up.\<close>

datatype colour = Cyan | Magenta | Yellow | Black | Orange | Violet | Grey

type_synonym cmyk = "real \<times> real \<times> real \<times> real"

fun CMYK_DEFINITIONS :: "colour \<Rightarrow> cmyk" where
  "CMYK_DEFINITIONS Cyan = (1.0, 0.0, 0.0, 0.0)"
| "CMYK_DEFINITIONS Magenta = (0.0, 1.0, 0.0, 0.0)"
| "CMYK_DEFINITIONS Yellow = (0.0, 0.0, 1.0, 0.0)"
| "CMYK_DEFINITIONS Black = (0.0, 0.0, 0.0, 1.0)"
| "CMYK_DEFINITIONS Orange = (0.0, 0.7, 0.7, 0.0)"
| "CMYK_DEFINITIONS Violet = (0.7, 0.7, 0.0, 0.0)"
| "CMYK_DEFINITIONS Grey = (0.0, 0.0, 0.0, 0.7)"

definition colour_order :: "colour list" where
  "colour_order = [Cyan, Magenta, Yellow, Black, Orange, Violet, Grey]"

section \<open>overprint_layer\<close>

text \<open>Lines 57 to 79, in exact arithmetic.\<close>

definition overprint_layer :: "cmyk \<Rightarrow> cmyk \<Rightarrow> real \<Rightarrow> cmyk" where
  "overprint_layer current_cmyk_percent layer_cmyk_base layer_tint_percent =
     (case current_cmyk_percent of (base_c, base_m, base_y, base_k) \<Rightarrow>
      case layer_cmyk_base of (layer_def_c, layer_def_m, layer_def_y, layer_def_k) \<Rightarrow>
        let tint_factor = layer_tint_percent / 100;
            add_c = layer_def_c * tint_factor * 100;
            add_m = layer_def_m * tint_factor * 100;
            add_y = layer_def_y * tint_factor * 100;
            add_k = layer_def_k * tint_factor * 100;
            new_c = min 100 (base_c + add_c);
            new_m = min 100 (base_m + add_m);
            new_y = min 100 (base_y + add_y);
            new_k = min 100 (base_k + add_k)
        in (new_c, new_m, new_y, new_k))"

text \<open>A quadruple with every component between two bounds.\<close>

definition cmyk_in :: "real \<Rightarrow> real \<Rightarrow> cmyk \<Rightarrow> bool" where
  "cmyk_in lo hi q =
     (case q of (c, m, y, k) \<Rightarrow>
        lo \<le> c \<and> c \<le> hi \<and> lo \<le> m \<and> m \<le> hi \<and> lo \<le> y \<and> y \<le> hi \<and> lo \<le> k \<and> k \<le> hi)"

definition cmyk_nonneg :: "cmyk \<Rightarrow> bool" where
  "cmyk_nonneg q = (case q of (c, m, y, k) \<Rightarrow> 0 \<le> c \<and> 0 \<le> m \<and> 0 \<le> y \<and> 0 \<le> k)"

subsection \<open>The binary64 reading\<close>

text \<open>
  A Python float is an IEEE 754 binary64 number: 53 significant bits, exponents from
  -1022 to 1023, subnormal numbers below. Each of \<open>/\<close>, \<open>*\<close> and \<open>+\<close> returns the exact
  result rounded to the nearest representable number, ties to the even significand.
  Overflow to infinity is not modelled: no value computed here reaches \<open>2 ^ 1024\<close>.
  The arguments of a rounded operation are taken as they are given; of the channel table
  only the entries 0 and 1, which binary64 holds exactly, are evaluated in this reading.
\<close>

definition round_half_even :: "real \<Rightarrow> int" where
  "round_half_even x =
     (let f = \<lfloor>x\<rfloor>; d = x - of_int f
      in if d < 1/2 then f else if 1/2 < d then f + 1 else if even f then f else f + 1)"

text \<open>The binary exponent of a positive number, kept within the exponent range: the
  count stops after 1023 halvings or 1022 doublings.\<close>

fun expo_up :: "nat \<Rightarrow> real \<Rightarrow> int" where
  "expo_up 0 x = 0"
| "expo_up (Suc n) x = (if x < 2 then 0 else expo_up n (x / 2) + 1)"

fun expo_down :: "nat \<Rightarrow> real \<Rightarrow> int" where
  "expo_down 0 x = 0"
| "expo_down (Suc n) x = (if 1 \<le> x then 0 else expo_down n (x * 2) - 1)"

definition expo :: "real \<Rightarrow> int" where
  "expo x = (if 1 \<le> x then expo_up 1023 x else expo_down 1022 x)"

text \<open>The spacing of the binary64 numbers around \<open>x\<close>, and rounding to it.\<close>

definition ulp :: "real \<Rightarrow> real" where
  "ulp x = 2 powi (expo \<bar>x\<bar> - 52)"

definition b64 :: "real \<Rightarrow> real" where
  "b64 x = of_int (round_half_even (x / ulp x)) * ulp x"

definition fdiv :: "real \<Rightarrow> real \<Rightarrow> real" where
  "fdiv a b = b64 (a / b)"

definition fmul :: "real \<Rightarrow> real \<Rightarrow> real" where
  "fmul a b = b64 (a * b)"

definition fadd :: "real \<Rightarrow> real \<Rightarrow> real" where
  "fadd a b = b64 (a + b)"

text \<open>Lines 57 to 79 again, every operation rounded. \<open>a * b * 100\<close> is \<open>(a * b) * 100\<close>.\<close>

definition overprint_layer_b64 :: "cmyk \<Rightarrow> cmyk \<Rightarrow> real \<Rightarrow> cmyk" where
  "overprint_layer_b64 current_cmyk_percent layer_cmyk_base layer_tint_percent =
     (case current_cmyk_percent of (base_c, base_m, base_y, base_k) \<Rightarrow>
      case layer_cmyk_base of (layer_def_c, layer_def_m, layer_def_y, layer_def_k) \<Rightarrow>
        let tint_factor = fdiv layer_tint_percent 100;
            add_c = fmul (fmul layer_def_c tint_factor) 100;
            add_m = fmul (fmul layer_def_m tint_factor) 100;
            add_y = fmul (fmul layer_def_y tint_factor) 100;
            add_k = fmul (fmul layer_def_k tint_factor) 100;
            new_c = min 100 (fadd base_c add_c);
            new_m = min 100 (fadd base_m add_m);
            new_y = min 100 (fadd base_y add_y);
            new_k = min 100 (fadd base_k add_k)
        in (new_c, new_m, new_y, new_k))"

subsection \<open>The direct update of a process colour\<close>

text \<open>Lines 156 to 159: the \<open>if\<close>/\<open>elif\<close> chain on the colour name, which writes one
  component of the cell's colour; a name outside the chain changes nothing.\<close>

fun direct_update :: "colour \<Rightarrow> cmyk \<Rightarrow> real \<Rightarrow> cmyk" where
  "direct_update Cyan (c, m, y, k) tint_val = (min 100 (c + tint_val), m, y, k)"
| "direct_update Magenta (c, m, y, k) tint_val = (c, min 100 (m + tint_val), y, k)"
| "direct_update Yellow (c, m, y, k) tint_val = (c, m, min 100 (y + tint_val), k)"
| "direct_update Black (c, m, y, k) tint_val = (c, m, y, min 100 (k + tint_val))"
| "direct_update _ (c, m, y, k) tint_val = (c, m, y, k)"

fun direct_update_b64 :: "colour \<Rightarrow> cmyk \<Rightarrow> real \<Rightarrow> cmyk" where
  "direct_update_b64 Cyan (c, m, y, k) tint_val = (min 100 (fadd c tint_val), m, y, k)"
| "direct_update_b64 Magenta (c, m, y, k) tint_val = (c, min 100 (fadd m tint_val), y, k)"
| "direct_update_b64 Yellow (c, m, y, k) tint_val = (c, m, min 100 (fadd y tint_val), k)"
| "direct_update_b64 Black (c, m, y, k) tint_val = (c, m, y, min 100 (fadd k tint_val))"
| "direct_update_b64 _ (c, m, y, k) tint_val = (c, m, y, k)"

section \<open>Choosing the variable colours\<close>

text \<open>
  \<open>get_colour_input\<close> returns the string \<open>'v'\<close> or an integer from 0 to 100.
  Each entry of \<open>colour_inputs\<close> holds that value and a median; each entry of
  \<open>variable_colours_data\<close> holds a name, a median and a start value.
\<close>

datatype tint_input = V | Tint int

record colour_entry =
  entry_value :: tint_input
  entry_median :: int

record var_col =
  name :: colour
  median_tint :: int
  start_val :: int

record selection =
  colour_inputs :: "colour \<rightharpoonup> colour_entry"
  variable_colours_data :: "var_col list"

text \<open>
  The body of the loop of lines 101 to 123. The two prompts are parameters: the answer
  that \<open>get_colour_input\<close> accepts for a colour, and the answer that \<open>get_int_input\<close>
  accepts for the median of a colour, which is asked only on the first branch.
\<close>

definition select_colour ::
  "(colour \<Rightarrow> tint_input) \<Rightarrow> (colour \<Rightarrow> int) \<Rightarrow> colour \<Rightarrow> selection \<Rightarrow> selection" where
  "select_colour get_colour_input get_median colour_name s =
     (let tint_input = get_colour_input colour_name;
          s1 = s\<lparr>colour_inputs := (colour_inputs s)
                  (colour_name \<mapsto> \<lparr>entry_value = tint_input, entry_median = 0\<rparr>)\<rparr>
      in if tint_input = V then
           if length (variable_colours_data s1) < 2 then
             let median_tint = get_median colour_name
             in s1\<lparr>colour_inputs := (colour_inputs s1)
                      (colour_name \<mapsto> \<lparr>entry_value = tint_input, entry_median = median_tint\<rparr>),
                    variable_colours_data := variable_colours_data s1 @
                      [\<lparr>name = colour_name, median_tint = median_tint, start_val = 0\<rparr>]\<rparr>
           else
             s1\<lparr>colour_inputs := (colour_inputs s1)
                   (colour_name \<mapsto> \<lparr>entry_value = Tint 0, entry_median = 0\<rparr>)\<rparr>
         else s1)"

definition select_colours ::
  "(colour \<Rightarrow> tint_input) \<Rightarrow> (colour \<Rightarrow> int) \<Rightarrow> selection" where
  "select_colours get_colour_input get_median =
     fold (select_colour get_colour_input get_median) colour_order
       \<lparr>colour_inputs = Map.empty, variable_colours_data = []\<rparr>"

text \<open>The colours answered with \<open>'v'\<close>, in the order they are asked.\<close>

definition marked_variable :: "(colour \<Rightarrow> tint_input) \<Rightarrow> colour list" where
  "marked_variable get_colour_input = filter (\<lambda>c. get_colour_input c = V) colour_order"

text \<open>The answers of the example run: the defaults of lines 104 to 106 and 114 to 116,
  with Orange answered \<open>'v'\<close> as well.\<close>

fun example_answers :: "colour \<Rightarrow> tint_input" where
  "example_answers Cyan = V"
| "example_answers Black = V"
| "example_answers Orange = V"
| "example_answers Yellow = Tint 30"
| "example_answers _ = Tint 0"

fun example_medians :: "colour \<Rightarrow> int" where
  "example_medians Cyan = 65"
| "example_medians Black = 85"
| "example_medians _ = 50"

section \<open>Start values and the sweep\<close>

text \<open>Lines 129 to 136: two independent \<open>if\<close> statements, the second after the first.\<close>

definition calc_start_val :: "int \<Rightarrow> int \<Rightarrow> int" where
  "calc_start_val median step_val =
     (let start_val0 = median - (step_val * 5);
          start_val1 = (if (step_val * 5) + median > 100 then 100 - (step_val * 10) else start_val0);
          start_val2 = (if (median - (step_val * 5)) < 0 then 0 else start_val1)
      in start_val2)"

text \<open>The rule as the specification words it: the second override only where the first
  does not apply.\<close>

definition spec_start :: "int \<Rightarrow> int \<Rightarrow> int" where
  "spec_start M S =
     (if M + 5 * S > 100 then 100 - 10 * S
      else if M - 5 * S < 0 then 0
      else M - 5 * S)"

text \<open>Lines 175, 184, 240 and 320: the tint of column or row \<open>i\<close>, clamped.\<close>

definition current_tint :: "int \<Rightarrow> int \<Rightarrow> int \<Rightarrow> int" where
  "current_tint start step_val i = max 0 (min 100 (start + i * step_val))"

text \<open>Whether the clamp of \<open>current_tint\<close> changes the value of index \<open>i\<close>.\<close>

definition clamped_at :: "int \<Rightarrow> int \<Rightarrow> int \<Rightarrow> bool" where
  "clamped_at start step_val i = (start + i * step_val < 0 \<or> 100 < start + i * step_val)"

text \<open>The values of one axis, for \<open>range(11)\<close>.\<close>

definition sweep :: "int \<Rightarrow> int \<Rightarrow> int list" where
  "sweep start step_val = map (current_tint start step_val) [0..10]"

section \<open>Geometry\<close>

text \<open>
  Lines 88 and 89 multiply an \<open>int\<close> by a \<open>float\<close>. Python converts the \<open>int\<close> to a
  \<open>float\<close> first, and the conversion raises \<open>OverflowError\<close> when the \<open>int\<close> does not
  round to a finite binary64 number, which is from the magnitude \<open>2 ^ 1024 - 2 ^ 970\<close>
  on. \<open>get_int_input\<close> is called without bounds for the width and the height, so such an
  \<open>int\<close> can arrive; nothing catches the exception, and the program stops at that line.
\<close>

datatype py_error = OverflowError

definition int_to_float :: "int \<Rightarrow> py_error + real" where
  "int_to_float n = (if 2 ^ 1024 - 2 ^ 970 \<le> \<bar>n\<bar> then Inl OverflowError else Inr (of_int n))"

text \<open>
  Below that bound the product is read in exact arithmetic. A product beyond the largest
  \<open>float\<close> is \<open>inf\<close> in Python, with no exception, and the reals have no such value:
  the statements about the drawn grid keep to dimensions \<open>in_float_range\<close>, below
  \<open>2 ^ 1021\<close> in magnitude, whose product with \<open>MM_TO_POINTS\<close> is below \<open>2 ^ 1023\<close> and
  stays finite under rounding.
\<close>

definition docpts :: "int \<Rightarrow> py_error + real" where
  "docpts docmm =
     (case int_to_float docmm of
        Inl e \<Rightarrow> Inl e
      | Inr x \<Rightarrow> Inr (x * MM_TO_POINTS))"


text \<open>Lines 140, 141, 199 and 200, in exact arithmetic.\<close>

definition box_width :: "real \<Rightarrow> real" where
  "box_width docwidthpts = (docwidthpts - BOX_AREA_HORIZ_MARGIN_TOTAL) / 11"

definition box_height :: "real \<Rightarrow> real" where
  "box_height docheightpts = (docheightpts - BOX_AREA_VERT_MARGIN_TOTAL) / 11"

definition box_x_bl :: "real \<Rightarrow> int \<Rightarrow> real" where
  "box_x_bl docwidthpts i_col =
     X_REF_START_OFFSET + of_int i_col * (box_width docwidthpts + BOX_SPACING)"

definition box_y_bl :: "real \<Rightarrow> int \<Rightarrow> real" where
  "box_y_bl docheightpts k_row =
     Y_REF_START_OFFSET + of_int k_row * (box_height docheightpts + BOX_SPACING)"

text \<open>The arguments of one \<open>c.rect\<close> call (line 202). The fill colour set before the
  call takes no part in the geometry and is left out.\<close>

record rect =
  rect_x :: real
  rect_y :: real
  rect_width :: real
  rect_height :: real

text \<open>The nested loops of lines 144 to 202: rows outside, columns inside, one rectangle
  per cell; nothing on the way checks a size.\<close>

definition grid_rects :: "real \<Rightarrow> real \<Rightarrow> rect list" where
  "grid_rects docwidthpts docheightpts =
     concat (map (\<lambda>k_row.
       map (\<lambda>i_col.
         \<lparr>rect_x = box_x_bl docwidthpts i_col,
          rect_y = box_y_bl docheightpts k_row,
          rect_width = box_width docwidthpts,
          rect_height = box_height docheightpts\<rparr>) [0..10]) [0..10])"

text \<open>Lines 88 and 89, then the grid: the rectangles drawn for a width and a height in
  millimetres, or the exception that stops the program before the first of them.\<close>

definition draw_grid :: "int \<Rightarrow> int \<Rightarrow> py_error + rect list" where
  "draw_grid docwidthmm docheightmm =
     (case docpts docwidthmm of
        Inl e \<Rightarrow> Inl e
      | Inr docwidthpts \<Rightarrow>
          (case docpts docheightmm of
             Inl e \<Rightarrow> Inl e
           | Inr docheightpts \<Rightarrow> Inr (grid_rects docwidthpts docheightpts)))"

text \<open>Lines 264, 316, 332, 333 and 337: the height at which the value of row \<open>k_row\<close> is
  drawn on the vertical axis. The page origin is the bottom left corner, so a greater
  height is further up the page.\<close>

definition js_y_text_top_start :: real where
  "js_y_text_top_start = 52.519685"

definition font_size_approx :: real where
  "font_size_approx = 8"

definition y_label_baseline :: "real \<Rightarrow> int \<Rightarrow> real" where
  "y_label_baseline docheightpts k_row =
     (let y_top_for_this_label =
            js_y_text_top_start + of_int k_row * (box_height docheightpts + BOX_SPACING);
          final_y_rl = docheightpts - y_top_for_this_label
      in final_y_rl - (font_size_approx / 2))"

text \<open>The unused computation of lines 312 and 317, with \<open>10 - k_row\<close>.\<close>

definition text_y_rl_centered :: "real \<Rightarrow> int \<Rightarrow> real" where
  "text_y_rl_centered docheightpts k_row =
     (let y_coord_for_label_js_top =
            js_y_text_top_start + of_int (10 - k_row) * (box_height docheightpts + BOX_SPACING)
      in docheightpts - y_coord_for_label_js_top - font_size_approx / 2)"

section \<open>Properties of overprint_layer\<close>

lemma round_half_even_nonneg: "0 \<le> x \<Longrightarrow> 0 \<le> round_half_even x"
  by (simp add: round_half_even_def Let_def)

lemma ulp_pos: "0 < ulp x"
  by (simp add: ulp_def)

lemma b64_nonneg: "0 \<le> x \<Longrightarrow> 0 \<le> b64 x"
  unfolding b64_def
  by (intro mult_nonneg_nonneg) (simp_all add: round_half_even_nonneg ulp_pos less_imp_le)

lemma add_b64_nonneg:
  assumes "0 \<le> d" "0 \<le> t"
  shows "0 \<le> fmul (fmul d (fdiv t 100)) 100"
  using assms by (simp add: fmul_def fdiv_def b64_nonneg)

text \<open>
  C1. For a current quadruple with every component in [0,100], a layer base with every
  component in [0,1] and a tint in [0,100], no component that \<open>overprint_layer\<close> returns
  is above 100 or below 0. This holds in exact arithmetic and with every operation
  rounded to binary64.
\<close>

theorem overprint_layer_saturation:
  assumes "cmyk_in 0 100 current" and "cmyk_in 0 1 base" and "0 \<le> tint" and "tint \<le> 100"
  shows "cmyk_in 0 100 (overprint_layer current base tint) \<and>
         cmyk_in 0 100 (overprint_layer_b64 current base tint)"
proof -
  obtain c m y k where cur: "current = (c, m, y, k)" by (cases current) auto
  obtain dc dm dy dk where b: "base = (dc, dm, dy, dk)" by (cases base) auto
  from assms(1) cur have c: "0 \<le> c" "0 \<le> m" "0 \<le> y" "0 \<le> k"
    by (simp_all add: cmyk_in_def)
  from assms(2) b have d: "0 \<le> dc" "0 \<le> dm" "0 \<le> dy" "0 \<le> dk"
    by (simp_all add: cmyk_in_def)
  have exact: "cmyk_in 0 100 (overprint_layer current base tint)"
    using c d \<open>0 \<le> tint\<close>
    by (simp add: cur b overprint_layer_def cmyk_in_def Let_def)
  have rounded: "cmyk_in 0 100 (overprint_layer_b64 current base tint)"
    using c d \<open>0 \<le> tint\<close>
    by (simp add: cur b overprint_layer_b64_def cmyk_in_def Let_def fadd_def
        b64_nonneg add_b64_nonneg)
  from exact rounded show ?thesis ..
qed

theorem overprint_layer_saturation_witness:
  "cmyk_in 0 100 (90, 0, 50, 100) \<and> cmyk_in 0 1 (CMYK_DEFINITIONS Cyan) \<and>
   (0::real) \<le> 40 \<and> (40::real) \<le> 100 \<and>
   overprint_layer (90, 0, 50, 100) (CMYK_DEFINITIONS Cyan) 40 = (100, 0, 50, 100) \<and>
   cmyk_in 0 100 (overprint_layer (90, 0, 50, 100) (CMYK_DEFINITIONS Cyan) 40) \<and>
   cmyk_in 0 100 (overprint_layer_b64 (90, 0, 50, 100) (CMYK_DEFINITIONS Cyan) 40)"
proof -
  have h1: "cmyk_in 0 100 (90, 0, 50, 100)" by (simp add: cmyk_in_def)
  have h2: "cmyk_in 0 1 (CMYK_DEFINITIONS Cyan)" by (simp add: cmyk_in_def)
  have v: "overprint_layer (90, 0, 50, 100) (CMYK_DEFINITIONS Cyan) 40 = (100, 0, 50, 100)"
    by (simp add: overprint_layer_def)
  from overprint_layer_saturation [OF h1 h2, of 40] h1 h2 v show ?thesis by simp
qed

subsection \<open>Order of two layers\<close>

lemma sat_add_commute:
  fixes c a b :: real
  assumes "0 \<le> a" "0 \<le> b"
  shows "min 100 (min 100 (c + a) + b) = min 100 (min 100 (c + b) + a)"
  using assms by (simp add: min_def)

text \<open>
  C10. In exact arithmetic, for a starting quadruple, two layer bases and two tints, all
  non-negative, applying \<open>overprint_layer\<close> with the first layer and then the second
  gives the same quadruple as applying the second and then the first.
\<close>

theorem overprint_layer_commute:
  assumes "cmyk_nonneg current"
    and "cmyk_nonneg base1" and "0 \<le> tint1"
    and "cmyk_nonneg base2" and "0 \<le> tint2"
  shows "overprint_layer (overprint_layer current base1 tint1) base2 tint2 =
         overprint_layer (overprint_layer current base2 tint2) base1 tint1"
proof -
  obtain c m y k where cur: "current = (c, m, y, k)" by (cases current) auto
  obtain c1 m1 y1 k1 where b1: "base1 = (c1, m1, y1, k1)" by (cases base1) auto
  obtain c2 m2 y2 k2 where b2: "base2 = (c2, m2, y2, k2)" by (cases base2) auto
  from assms(2,3) b1
  have a1: "0 \<le> c1 * tint1" "0 \<le> m1 * tint1" "0 \<le> y1 * tint1" "0 \<le> k1 * tint1"
    by (simp_all add: cmyk_nonneg_def)
  from assms(4,5) b2
  have a2: "0 \<le> c2 * tint2" "0 \<le> m2 * tint2" "0 \<le> y2 * tint2" "0 \<le> k2 * tint2"
    by (simp_all add: cmyk_nonneg_def)
  show ?thesis
    using a1 a2 by (simp add: cur b1 b2 overprint_layer_def Let_def sat_add_commute)
qed

theorem overprint_layer_commute_witness:
  "cmyk_nonneg (0, 30, 60, 0) \<and> cmyk_nonneg (CMYK_DEFINITIONS Orange) \<and> (0::real) \<le> 50 \<and>
   cmyk_nonneg (CMYK_DEFINITIONS Violet) \<and> (0::real) \<le> 100 \<and>
   overprint_layer (overprint_layer (0, 30, 60, 0) (CMYK_DEFINITIONS Orange) 50)
     (CMYK_DEFINITIONS Violet) 100 = (70, 100, 95, 0) \<and>
   overprint_layer (overprint_layer (0, 30, 60, 0) (CMYK_DEFINITIONS Violet) 100)
     (CMYK_DEFINITIONS Orange) 50 = (70, 100, 95, 0)"
proof -
  have h0: "cmyk_nonneg (0, 30, 60, 0)" by (simp add: cmyk_nonneg_def)
  have h1: "cmyk_nonneg (CMYK_DEFINITIONS Orange)" by (simp add: cmyk_nonneg_def)
  have h2: "cmyk_nonneg (CMYK_DEFINITIONS Violet)" by (simp add: cmyk_nonneg_def)
  have v: "overprint_layer (overprint_layer (0, 30, 60, 0) (CMYK_DEFINITIONS Orange) 50)
     (CMYK_DEFINITIONS Violet) 100 = (70, 100, 95, 0)"
    by (simp add: overprint_layer_def)
  from overprint_layer_commute [OF h0 h1 _ h2, of 50 100] v h0 h1 h2 show ?thesis
    by simp
qed

subsection \<open>The direct update against overprint_layer\<close>

lemma b64_eval:
  assumes "expo \<bar>x\<bar> = e"
  shows "b64 x = of_int (round_half_even (x / 2 powi (e - 52))) * 2 powi (e - 52)"
  using assms by (simp add: b64_def ulp_def)

lemma b64_exact:
  assumes "expo \<bar>x\<bar> = e" and "x / 2 powi (e - 52) = of_int n"
  shows "b64 x = x"
proof -
  have r: "round_half_even (of_int n) = n"
    by (simp add: round_half_even_def)
  have p: "(2::real) powi (e - 52) \<noteq> 0"
    by simp
  from assms(2) p have "x = of_int n * 2 powi (e - 52)"
    by (simp add: field_simps)
  with assms r show ?thesis
    by (simp add: b64_def ulp_def)
qed

text \<open>
  C9 as stated fails in binary64. For Cyan at tint 7 on the all-zero quadruple the direct
  update gives 7. In \<open>overprint_layer\<close>, \<open>7 / 100.0\<close> rounds to
  \<open>5044031582654956 / 2 ^ 56\<close>, a little above 0.07, and that times 100 rounds to
  \<open>7 + 1 / 2 ^ 50\<close>, which Python prints as 7.000000000000001.
\<close>

theorem direct_update_b64_differs:
  "direct_update_b64 Cyan (0, 0, 0, 0) 7 = (7, 0, 0, 0) \<and>
   overprint_layer_b64 (0, 0, 0, 0) (CMYK_DEFINITIONS Cyan) 7 = (7 + 1 / 2 ^ 50, 0, 0, 0) \<and>
   direct_update_b64 Cyan (0, 0, 0, 0) 7 \<noteq>
     overprint_layer_b64 (0, 0, 0, 0) (CMYK_DEFINITIONS Cyan) 7"
proof -
  define q :: real where "q = 5044031582654956 / 2 ^ 56"
  define r :: real where "r = 7 + 1 / 2 ^ 50"
  have e_in: "expo \<bar>7 / 100\<bar> = - 4"
    by (simp add: expo_def eval_nat_numeral)
  have e_q: "expo \<bar>q\<bar> = - 4"
    by (simp add: q_def expo_def eval_nat_numeral)
  have e_q100: "expo \<bar>q * 100\<bar> = 2"
    by (simp add: q_def expo_def eval_nat_numeral)
  have e_r: "expo \<bar>r\<bar> = 2"
    by (simp add: r_def expo_def eval_nat_numeral)
  have e_7: "expo \<bar>7\<bar> = 2"
    by (simp add: expo_def eval_nat_numeral)
  have tint_factor: "fdiv 7 100 = q"
    unfolding fdiv_def using b64_eval [OF e_in]
    by (simp add: q_def round_half_even_def power_int_minus)
  have q_fixed: "b64 q = q"
    by (rule b64_exact [OF e_q, of 5044031582654956]) (simp add: q_def power_int_minus)
  have add_c: "fmul q 100 = r"
    unfolding fmul_def using b64_eval [OF e_q100]
    by (simp add: q_def r_def round_half_even_def power_int_minus)
  have r_fixed: "b64 r = r"
    by (rule b64_exact [OF e_r, of 7881299347898369]) (simp add: r_def power_int_minus)
  have seven_fixed: "b64 7 = 7"
    by (rule b64_exact [OF e_7, of 7881299347898368]) (simp add: power_int_minus)
  have zero_fixed: "b64 0 = 0"
    by (simp add: b64_def round_half_even_def)
  have direct: "direct_update_b64 Cyan (0, 0, 0, 0) 7 = (7, 0, 0, 0)"
    by (simp add: fadd_def seven_fixed)
  have layer: "overprint_layer_b64 (0, 0, 0, 0) (CMYK_DEFINITIONS Cyan) 7 = (min 100 r, 0, 0, 0)"
    by (simp add: overprint_layer_b64_def tint_factor)
       (simp add: fmul_def fadd_def q_fixed zero_fixed add_c [unfolded fmul_def] r_fixed)
  have below: "min 100 r = r"
    by (simp add: r_def)
  have "r \<noteq> 7"
    by (simp add: r_def)
  with direct layer below show ?thesis
    by (simp add: r_def)
qed

text \<open>
  C9, amended. In exact arithmetic, for each of Cyan, Magenta, Yellow and Black, a current
  quadruple with every component in [0,100] and a tint in (0,100], the direct update of
  the one component gives the same quadruple as \<open>overprint_layer\<close> with the base of
  that colour.
\<close>

theorem direct_update_exact:
  assumes "ch \<in> {Cyan, Magenta, Yellow, Black}"
    and "cmyk_in 0 100 current" and "0 < tint" and "tint \<le> 100"
  shows "direct_update ch current tint = overprint_layer current (CMYK_DEFINITIONS ch) tint"
proof -
  obtain c m y k where cur: "current = (c, m, y, k)" by (cases current) auto
  from assms(2) cur have le: "c \<le> 100" "m \<le> 100" "y \<le> 100" "k \<le> 100"
    by (simp_all add: cmyk_in_def)
  from assms(1) show ?thesis
    using le by (auto simp add: cur overprint_layer_def)
qed

theorem direct_update_exact_witness:
  "Yellow \<in> {Cyan, Magenta, Yellow, Black} \<and> cmyk_in 0 100 (10, 20, 90, 0) \<and>
   (0::real) < 30 \<and> (30::real) \<le> 100 \<and>
   direct_update Yellow (10, 20, 90, 0) 30 = (10, 20, 100, 0) \<and>
   overprint_layer (10, 20, 90, 0) (CMYK_DEFINITIONS Yellow) 30 = (10, 20, 100, 0)"
proof -
  have h1: "Yellow \<in> {Cyan, Magenta, Yellow, Black}" by simp
  have h2: "cmyk_in 0 100 (10, 20, 90, 0)" by (simp add: cmyk_in_def)
  have v: "direct_update Yellow (10, 20, 90, 0) 30 = (10, 20, 100, 0)" by simp
  from direct_update_exact [OF h1 h2, of 30] v h2 show ?thesis by simp
qed

section \<open>Properties of the selection\<close>

lemma select_colour_vars:
  "variable_colours_data (select_colour inp med c s) =
     (if inp c = V \<and> length (variable_colours_data s) < 2
      then variable_colours_data s @ [\<lparr>name = c, median_tint = med c, start_val = 0\<rparr>]
      else variable_colours_data s)"
  by (simp add: select_colour_def Let_def)

lemma select_colour_entry_same:
  "map_option entry_value (colour_inputs (select_colour inp med c s) c) =
     Some (if inp c = V \<and> \<not> length (variable_colours_data s) < 2 then Tint 0 else inp c)"
  by (simp add: select_colour_def Let_def)

lemma select_colour_entry_other:
  "c' \<noteq> c \<Longrightarrow> colour_inputs (select_colour inp med c s) c' = colour_inputs s c'"
  by (simp add: select_colour_def Let_def)

lemma fold_select_entry_other:
  "c' \<notin> set cs \<Longrightarrow>
   colour_inputs (fold (select_colour inp med) cs s) c' = colour_inputs s c'"
  by (induction cs arbitrary: s) (auto simp: select_colour_entry_other)

text \<open>The names in \<open>variable_colours_data\<close> after the loop has gone through \<open>cs\<close>.\<close>

lemma fold_select_names:
  "length (variable_colours_data s) \<le> 2 \<Longrightarrow>
   map name (variable_colours_data (fold (select_colour inp med) cs s)) =
     take 2 (map name (variable_colours_data s) @ filter (\<lambda>c. inp c = V) cs)"
proof (induction cs arbitrary: s)
  case Nil
  then show ?case by simp
next
  case (Cons x xs)
  let ?s' = "select_colour inp med x s"
  have len: "length (variable_colours_data ?s') \<le> 2"
    using Cons.prems by (simp add: select_colour_vars)
  show ?case
  proof (cases "inp x = V \<and> length (variable_colours_data s) < 2")
    case True
    with Cons.IH [OF len] show ?thesis
      by (simp add: select_colour_vars)
  next
    case False
    with Cons.IH [OF len] Cons.prems show ?thesis
      by (auto simp add: select_colour_vars)
  qed
qed

text \<open>A colour answered \<open>'v'\<close> once two are taken ends with the value 0. Each colour is
  asked once, so no later pass of the loop writes its entry again.\<close>

lemma fold_select_downgraded:
  "distinct cs \<Longrightarrow> length (variable_colours_data s) \<le> 2 \<Longrightarrow>
   c \<in> set (drop (2 - length (variable_colours_data s)) (filter (\<lambda>c. inp c = V) cs)) \<Longrightarrow>
   map_option entry_value (colour_inputs (fold (select_colour inp med) cs s) c) = Some (Tint 0)"
proof (induction cs arbitrary: s)
  case Nil
  then show ?case by simp
next
  case (Cons x xs)
  let ?s' = "select_colour inp med x s"
  have len: "length (variable_colours_data ?s') \<le> 2"
    using Cons.prems(2) by (simp add: select_colour_vars)
  have dist: "distinct xs" and fresh: "x \<notin> set xs"
    using Cons.prems(1) by simp_all
  consider (fixed) "inp x \<noteq> V"
    | (axis) "inp x = V" "length (variable_colours_data s) < 2"
    | (full) "inp x = V" "length (variable_colours_data s) = 2"
    using Cons.prems(2) by fastforce
  then show ?case
  proof cases
    case fixed
    then have "c \<in> set (drop (2 - length (variable_colours_data ?s')) (filter (\<lambda>c. inp c = V) xs))"
      using Cons.prems(3) by (simp add: select_colour_vars)
    from Cons.IH [OF dist len this] show ?thesis by simp
  next
    case axis
    then have "2 - length (variable_colours_data s) = Suc (2 - length (variable_colours_data ?s'))"
      by (simp add: select_colour_vars)
    with axis Cons.prems(3)
    have "c \<in> set (drop (2 - length (variable_colours_data ?s')) (filter (\<lambda>c. inp c = V) xs))"
      by simp
    from Cons.IH [OF dist len this] show ?thesis by simp
  next
    case full
    show ?thesis
    proof (cases "c = x")
      case True
      with fresh full show ?thesis
        by (simp add: fold_select_entry_other select_colour_entry_same)
    next
      case False
      with full Cons.prems(3)
      have "c \<in> set (drop (2 - length (variable_colours_data ?s')) (filter (\<lambda>c. inp c = V) xs))"
        by (simp add: select_colour_vars)
      from Cons.IH [OF dist len this] show ?thesis by simp
    qed
  qed
qed

lemma example_marked: "marked_variable example_answers = [Cyan, Black, Orange]"
  by (simp add: marked_variable_def colour_order_def)

text \<open>
  C5. When three or more colours are answered \<open>'v'\<close>, the entries of
  \<open>variable_colours_data\<close>, the first of which is the horizontal axis and the second the
  vertical one, are exactly the first two colours answered \<open>'v'\<close>, in the order asked,
  and every colour answered \<open>'v'\<close> after them is recorded with the fixed value 0.
\<close>

theorem third_variable_downgrade:
  assumes "3 \<le> length (marked_variable inp)"
  shows "map name (variable_colours_data (select_colours inp med)) = take 2 (marked_variable inp) \<and>
         (\<forall>c\<in>set (drop 2 (marked_variable inp)).
            map_option entry_value (colour_inputs (select_colours inp med) c) = Some (Tint 0))"
proof
  show "map name (variable_colours_data (select_colours inp med)) = take 2 (marked_variable inp)"
    by (simp add: select_colours_def marked_variable_def fold_select_names)
next
  have d: "distinct colour_order"
    by (simp add: colour_order_def)
  show "\<forall>c\<in>set (drop 2 (marked_variable inp)).
            map_option entry_value (colour_inputs (select_colours inp med) c) = Some (Tint 0)"
    unfolding select_colours_def marked_variable_def
    by (intro ballI fold_select_downgraded [OF d]) simp_all
qed

text \<open>Cyan, Black and Orange answered \<open>'v'\<close>: the axes are Cyan and Black, Orange is 0.\<close>

theorem third_variable_downgrade_witness:
  "3 \<le> length (marked_variable example_answers) \<and>
   map name (variable_colours_data (select_colours example_answers example_medians)) = [Cyan, Black] \<and>
   Orange \<in> set (drop 2 (marked_variable example_answers)) \<and>
   map_option entry_value (colour_inputs (select_colours example_answers example_medians) Orange)
     = Some (Tint 0)"
proof -
  have h: "3 \<le> length (marked_variable example_answers)"
    by (simp add: example_marked)
  from third_variable_downgrade [OF h, of example_medians] show ?thesis
    by (simp add: example_marked)
qed

section \<open>Properties of the start value and the sweep\<close>

text \<open>
  C2. For a median in [0,100] and a step in [1,9] the start value that the two \<open>if\<close>
  statements compute is the one of the rule with precedence: \<open>100 - 10 * S\<close> when
  \<open>M + 5 * S > 100\<close>, otherwise 0 when \<open>M - 5 * S < 0\<close>, otherwise \<open>M - 5 * S\<close>. Median
  85 with step 3 starts at 70, median 65 with step 3 at 50.
\<close>

theorem calc_start_val_spec:
  assumes "0 \<le> M" and "M \<le> 100" and "1 \<le> S" and "S \<le> 9"
  shows "calc_start_val M S = spec_start M S \<and>
         calc_start_val 85 3 = 70 \<and> calc_start_val 65 3 = 50"
  using assms by (simp add: calc_start_val_def spec_start_def Let_def)

theorem calc_start_val_spec_witness:
  "(0::int) \<le> 95 \<and> (95::int) \<le> 100 \<and> (1::int) \<le> 3 \<and> (3::int) \<le> 9 \<and>
   calc_start_val 95 3 = 70 \<and> spec_start 95 3 = 70 \<and>
   calc_start_val 85 3 = 70 \<and> calc_start_val 65 3 = 50"
  using calc_start_val_spec [of 95 3] by (simp add: spec_start_def)

lemma step_bounds:
  fixes i S :: int
  assumes "0 \<le> i" "i \<le> 10" "1 \<le> S"
  shows "0 \<le> i * S" and "i * S \<le> 10 * S"
  using assms by (simp_all add: mult_right_mono)

lemma start_val_bounds:
  assumes "0 \<le> M" "M \<le> 100" "1 \<le> S" "S \<le> 9"
  shows "0 \<le> calc_start_val M S" and "calc_start_val M S + 10 * S \<le> 100"
  using assms by (simp_all add: calc_start_val_def Let_def)

text \<open>
  C3. For a median in [0,100] and a step in [1,9], each of the eleven values
  \<open>start + i * S\<close>, \<open>i\<close> from 0 to 10, lies in [0,100].
\<close>

theorem sweep_values_in_range:
  assumes "0 \<le> M" and "M \<le> 100" and "1 \<le> S" and "S \<le> 9"
  shows "\<forall>i\<in>{0..10}. 0 \<le> calc_start_val M S + i * S \<and> calc_start_val M S + i * S \<le> 100"
proof
  fix i :: int
  assume "i \<in> {0..10}"
  then have i: "0 \<le> i" "i \<le> 10" by simp_all
  from step_bounds [OF i \<open>1 \<le> S\<close>] start_val_bounds [OF assms]
  show "0 \<le> calc_start_val M S + i * S \<and> calc_start_val M S + i * S \<le> 100"
    by linarith
qed

theorem sweep_values_in_range_witness:
  "(0::int) \<le> 97 \<and> (97::int) \<le> 100 \<and> (1::int) \<le> 9 \<and> (9::int) \<le> 9 \<and> (10::int) \<in> {0..10} \<and>
   calc_start_val 97 9 = 10 \<and>
   0 \<le> calc_start_val 97 9 + 10 * 9 \<and> calc_start_val 97 9 + 10 * 9 \<le> 100"
  using sweep_values_in_range [of 97 9] by (simp add: calc_start_val_def)

lemma current_tint_mono:
  assumes "0 \<le> S" "i \<le> j"
  shows "current_tint start S i \<le> current_tint start S j"
proof -
  from assms have "i * S \<le> j * S" by (simp add: mult_right_mono)
  then show ?thesis by (simp add: current_tint_def)
qed

lemma sorted_sweep: "0 \<le> S \<Longrightarrow> sorted (sweep start S)"
  by (simp add: sweep_def sorted_map sorted_wrt_iff_nth_less current_tint_mono)

lemma sweep_nth: "i \<le> 10 \<Longrightarrow> sweep start S ! i = current_tint start S (int i)"
  by (simp add: sweep_def)

text \<open>With the start value of the program the clamp never changes a value.\<close>

lemma sweep_never_clamped:
  assumes "0 \<le> M" "M \<le> 100" "1 \<le> S" "S \<le> 9" "0 \<le> i" "i \<le> 10"
  shows "\<not> clamped_at (calc_start_val M S) S i"
  using step_bounds [OF assms(5,6,3)] start_val_bounds [OF assms(1-4)]
  by (simp add: clamped_at_def)

text \<open>
  C4. For a median in [0,100] and a step in [1,9], the eleven clamped values
  \<open>max 0 (min 100 (start + i * S))\<close> are in non-decreasing order, and two consecutive
  values differ by exactly \<open>S\<close> unless the clamp changes one of them.
\<close>

theorem sweep_monotonic:
  assumes "0 \<le> M" and "M \<le> 100" and "1 \<le> S" and "S \<le> 9"
  shows "sorted (sweep (calc_start_val M S) S) \<and>
         (\<forall>i<10. \<not> clamped_at (calc_start_val M S) S (int i) \<and>
                  \<not> clamped_at (calc_start_val M S) S (int i + 1) \<longrightarrow>
              sweep (calc_start_val M S) S ! (i + 1) - sweep (calc_start_val M S) S ! i = S)"
proof
  from \<open>1 \<le> S\<close> show "sorted (sweep (calc_start_val M S) S)"
    by (simp add: sorted_sweep)
next
  show "\<forall>i<10. \<not> clamped_at (calc_start_val M S) S (int i) \<and>
                  \<not> clamped_at (calc_start_val M S) S (int i + 1) \<longrightarrow>
              sweep (calc_start_val M S) S ! (i + 1) - sweep (calc_start_val M S) S ! i = S"
  proof (intro allI impI)
    fix i :: nat
    assume "i < 10"
      and free: "\<not> clamped_at (calc_start_val M S) S (int i) \<and>
                 \<not> clamped_at (calc_start_val M S) S (int i + 1)"
    then have n:
      "sweep (calc_start_val M S) S ! (i + 1) = current_tint (calc_start_val M S) S (int i + 1)"
      "sweep (calc_start_val M S) S ! i = current_tint (calc_start_val M S) S (int i)"
      by (simp_all add: sweep_nth add.commute)
    from free show "sweep (calc_start_val M S) S ! (i + 1) - sweep (calc_start_val M S) S ! i = S"
      unfolding n by (simp add: current_tint_def clamped_at_def algebra_simps)
  qed
qed

theorem sweep_monotonic_witness:
  "(0::int) \<le> 85 \<and> (85::int) \<le> 100 \<and> (1::int) \<le> 3 \<and> (3::int) \<le> 9 \<and>
   sweep (calc_start_val 85 3) 3 = [70, 73, 76, 79, 82, 85, 88, 91, 94, 97, 100] \<and>
   sorted (sweep (calc_start_val 85 3) 3) \<and>
   (9::nat) < 10 \<and>
   \<not> clamped_at (calc_start_val 85 3) 3 (int 9) \<and>
   \<not> clamped_at (calc_start_val 85 3) 3 (int 9 + 1) \<and>
   sweep (calc_start_val 85 3) 3 ! (9 + 1) - sweep (calc_start_val 85 3) 3 ! 9 = 3"
proof -
  have s: "calc_start_val 85 3 = 70"
    by (simp add: calc_start_val_def)
  have v: "sweep 70 3 = [70, 73, 76, 79, 82, 85, 88, 91, 94, 97, 100]"
    by (simp add: sweep_def current_tint_def upto.simps)
  have c: "\<not> clamped_at 70 3 (int 9)" "\<not> clamped_at 70 3 (int 9 + 1)"
    by (simp_all add: clamped_at_def)
  have p: "(0::int) \<le> 85" "(85::int) \<le> 100" "(1::int) \<le> 3" "(3::int) \<le> 9"
    by simp_all
  note m = sweep_monotonic [OF p]
  note sorted = m [THEN conjunct1]
  note step = m [THEN conjunct2, rule_format, of 9]
  from step c have "sweep (calc_start_val 85 3) 3 ! (9 + 1) - sweep (calc_start_val 85 3) 3 ! 9 = 3"
    by (simp add: s)
  with sorted c v show ?thesis
    by (simp add: s)
qed

section \<open>Properties of the geometry\<close>

text \<open>
  C6. In exact arithmetic, for every page width \<open>W\<close>, eleven boxes of width
  \<open>(W - 198.425197) / 11\<close>, ten gaps of 11.3385827 and the offset 42.519685 on either
  side add up to \<open>W\<close>, since the gaps and the two offsets add up to 198.425197; the same
  holds for the height.
\<close>

theorem tiling:
  "11 * box_width W + 10 * BOX_SPACING + 2 * X_REF_START_OFFSET = W \<and>
   11 * box_height H + 10 * BOX_SPACING + 2 * Y_REF_START_OFFSET = H \<and>
   10 * BOX_SPACING + 2 * X_REF_START_OFFSET = BOX_AREA_HORIZ_MARGIN_TOTAL \<and>
   10 * BOX_SPACING + 2 * Y_REF_START_OFFSET = BOX_AREA_VERT_MARGIN_TOTAL"
  by (simp add: box_width_def box_height_def BOX_SPACING_def X_REF_START_OFFSET_def
      Y_REF_START_OFFSET_def BOX_AREA_HORIZ_MARGIN_TOTAL_def BOX_AREA_VERT_MARGIN_TOTAL_def
      field_simps)





text \<open>Beyond the float range the program stops at line 88 or 89 and draws nothing.\<close>

lemma draw_grid_overflow:
  "draw_grid 50 (10 ^ 400) = Inl OverflowError \<and> draw_grid (- (10 ^ 400)) 316 = Inl OverflowError"
  by (simp add: draw_grid_def docpts_def int_to_float_def)




subsection \<open>The values along the vertical axis\<close>

lemma y_label_baseline_formula:
  "y_label_baseline H r = H - (52.519685 + of_int r * (box_height H + BOX_SPACING)) - 4"
  by (simp add: y_label_baseline_def js_y_text_top_start_def font_size_approx_def Let_def)

lemma y_label_baseline_antimono:
  assumes "0 < box_height H + BOX_SPACING" "r < r'"
  shows "y_label_baseline H r' < y_label_baseline H r"
  using assms by (simp add: y_label_baseline_formula)

lemma box_y_bl_mono:
  assumes "0 < box_height H + BOX_SPACING" "r < r'"
  shows "box_y_bl H r < box_y_bl H r'"
  using assms by (simp add: box_y_bl_def)

text \<open>
  C8 on the default page, 316 mm high, with the vertical axis starting at 70 in steps of
  3. Row 0 is the bottom row of boxes and row 10 the top row. The value 70 of row 0 is
  drawn above the value 100 of row 10, at a height inside the top row of boxes: the
  values grow down the page while the rows grow up. The unused computation with
  \<open>10 - k_row\<close> would have put the value of row 10 where the value of row 0 is drawn.
\<close>

theorem y_labels_reversed:
  "docpts 316 = Inr (316 * MM_TO_POINTS) \<and>
   current_tint 70 3 0 = 70 \<and> current_tint 70 3 10 = 100 \<and>
   box_y_bl (316 * MM_TO_POINTS) 0 < box_y_bl (316 * MM_TO_POINTS) 10 \<and>
   y_label_baseline (316 * MM_TO_POINTS) 10 < y_label_baseline (316 * MM_TO_POINTS) 0 \<and>
   box_y_bl (316 * MM_TO_POINTS) 10 < y_label_baseline (316 * MM_TO_POINTS) 0 \<and>
   y_label_baseline (316 * MM_TO_POINTS) 0
     < box_y_bl (316 * MM_TO_POINTS) 10 + box_height (316 * MM_TO_POINTS) \<and>
   text_y_rl_centered (316 * MM_TO_POINTS) 10 = y_label_baseline (316 * MM_TO_POINTS) 0"
  by (simp add: current_tint_def box_y_bl_def y_label_baseline_def text_y_rl_centered_def
      box_height_def docpts_def int_to_float_def MM_TO_POINTS_def BOX_SPACING_def
      Y_REF_START_OFFSET_def BOX_AREA_VERT_MARGIN_TOTAL_def js_y_text_top_start_def
      font_size_approx_def)

end
